theory Spec2Isabelle
  imports Complex_Main
begin

section \<open>Python values, dictionaries and errors\<close>

text \<open>
  The services are Python programs that pass dictionaries of dynamically typed values
  around. A value is \<open>None\<close>, a float or a string; a dictionary is an association list
  (looked up with \<open>map_of\<close>, so the first binding of a key is the one that counts).
  Python floats are modelled as exact reals: every constant of the source (0.6, 0.4, 0.9
  ...) is the decimal fraction it is written as, and rounding is not modelled.
\<close>

datatype pyval = PNone | PFloat real | PStr string

type_synonym pydict = "(string \<times> pyval) list"

datatype error =
    TypeError
  | KeyError string
  | IntegerOutOfRange
  | RedisError string
  | DataError string
  | HTTPException nat string

definition dict_get :: "pydict \<Rightarrow> string \<Rightarrow> pyval \<Rightarrow> pyval" where
  \<comment> \<open>\<open>d.get(k, dflt)\<close>\<close>
  "dict_get d k dflt = (case map_of d k of None \<Rightarrow> dflt | Some v \<Rightarrow> v)"

definition bind_err :: "error + 'a \<Rightarrow> ('a \<Rightarrow> error + 'b) \<Rightarrow> error + 'b" where
  \<comment> \<open>sequencing of two computations, the first of which may raise\<close>
  "bind_err m f = (case m of Inl e \<Rightarrow> Inl e | Inr x \<Rightarrow> f x)"

fun py_mul_float :: "pyval \<Rightarrow> real \<Rightarrow> error + real" where
  \<comment> \<open>\<open>v * c\<close> for a float constant \<open>c\<close>: \<open>None * c\<close> and \<open>str * float\<close> raise TypeError\<close>
  "py_mul_float (PFloat x) c = Inr (x * c)"
| "py_mul_float PNone c = Inl TypeError"
| "py_mul_float (PStr s) c = Inl TypeError"

subsection \<open>Text of numbers and of exceptions\<close>

fun str_nat :: "nat \<Rightarrow> string" where
  "str_nat n =
     (if n < 10 then [''0123456789'' ! n]
      else str_nat (n div 10) @ [''0123456789'' ! (n mod 10)])"

declare str_nat.simps [simp del]

definition str_int :: "int \<Rightarrow> string" where
  "str_int i = (if i < 0 then ''-'' @ str_nat (nat (- i)) else str_nat (nat i))"

fun str_error :: "error \<Rightarrow> string" where
  \<comment> \<open>\<open>str(e)\<close> of an exception\<close>
  "str_error (RedisError m) = m"
| "str_error (HTTPException c m) = m"
| "str_error (KeyError k) = k"
| "str_error TypeError = ''unsupported operand type(s)''"
| "str_error IntegerOutOfRange = ''integer out of range''"
| "str_error (DataError m) = m"

definition http_500 :: "string \<Rightarrow> error \<Rightarrow> error" where
  \<comment> \<open>the handlers' \<open>except HTTPException: raise\<close> followed by
      \<open>except Exception as e: raise HTTPException(500, f"<prefix>{str(e)}")\<close>\<close>
  "http_500 prefix e =
     (case e of
        HTTPException c m \<Rightarrow> HTTPException c m
      | _ \<Rightarrow> HTTPException 500 (prefix @ str_error e))"

section \<open>Risk engine (risk-engine/main.py)\<close>

subsection \<open>Configuration\<close>

text \<open>
  \<open>RISK_THRESHOLD_BLOCK\<close>, \<open>RISK_THRESHOLD_CAPTCHA\<close> and \<open>AUTOMATION_LEVEL\<close> are read
  from the environment; the record holds one reading of them and \<open>default_config\<close> the
  defaults of the source.
\<close>

record risk_config =
  RISK_THRESHOLD_BLOCK :: real
  RISK_THRESHOLD_CAPTCHA :: real
  AUTOMATION_LEVEL :: string

definition default_config :: risk_config where
  "default_config =
     \<lparr>RISK_THRESHOLD_BLOCK = 0.9, RISK_THRESHOLD_CAPTCHA = 0.7, AUTOMATION_LEVEL = ''semi-auto''\<rparr>"

definition WEIGHTS :: "(string \<times> real) list" where
  "WEIGHTS = [(''ml'', 0.40), (''owasp'', 0.30), (''behavioral'', 0.20), (''contextual'', 0.10)]"

definition weight :: "string \<Rightarrow> error + real" where
  \<comment> \<open>\<open>WEIGHTS[k]\<close>\<close>
  "weight k = (case map_of WEIGHTS k of None \<Rightarrow> Inl (KeyError k) | Some w \<Rightarrow> Inr w)"

subsection \<open>calculate_risk\<close>

definition severity_map :: "(string \<times> real) list" where
  "severity_map = [(''CRITICAL'', 1.0), (''HIGH'', 0.8), (''MEDIUM'', 0.5), (''LOW'', 0.3)]"

fun severity_score :: "pyval \<Rightarrow> real" where
  \<comment> \<open>\<open>severity_map.get(v, 0.3)\<close>: a value that is no key of the map gives the default\<close>
  "severity_score (PStr s) = (case map_of severity_map s of None \<Rightarrow> 0.3 | Some x \<Rightarrow> x)"
| "severity_score PNone = 0.3"
| "severity_score (PFloat x) = 0.3"

fun max_default :: "real list \<Rightarrow> real \<Rightarrow> real" where
  \<comment> \<open>\<open>max(xs, default=d)\<close>\<close>
  "max_default [] d = d"
| "max_default (x # xs) d = fold max xs x"

definition ml_score_of :: "pydict \<Rightarrow> error + real" where
  "ml_score_of ml_data =
     (if ml_data \<noteq> [] then
        bind_err (py_mul_float (dict_get ml_data ''anomaly_score'' (PFloat 0.0)) 0.6) (\<lambda>a.
        bind_err (py_mul_float (dict_get ml_data ''attack_probability'' (PFloat 0.0)) 0.4) (\<lambda>p.
        Inr (a + p)))
      else Inr 0.0)"

definition owasp_score_of :: "pydict list \<Rightarrow> real" where
  "owasp_score_of owasp_data =
     max_default (map (\<lambda>d. severity_score (dict_get d ''severity'' (PStr ''LOW''))) owasp_data) 0.0"

definition behavioral_score_of :: "pydict \<Rightarrow> error + real" where
  "behavioral_score_of behavioral =
     bind_err (py_mul_float (dict_get behavioral ''blocked_ratio'' (PFloat 0.0)) 2.0) (\<lambda>x.
     Inr (min x 1.0))"

definition calculate_risk :: "pydict \<Rightarrow> pydict list \<Rightarrow> pydict \<Rightarrow> error + real" where
  "calculate_risk ml_data owasp_data behavioral =
     bind_err (ml_score_of ml_data) (\<lambda>ml_score.
     let owasp_score = owasp_score_of owasp_data in
     bind_err (behavioral_score_of behavioral) (\<lambda>behavioral_score.
     bind_err (weight ''ml'') (\<lambda>w_ml.
     bind_err (weight ''owasp'') (\<lambda>w_owasp.
     bind_err (weight ''behavioral'') (\<lambda>w_behavioral.
     Inr (min (ml_score * w_ml + owasp_score * w_owasp + behavioral_score * w_behavioral)
              1.0))))))"


subsection \<open>decide_action\<close>

record decision =
  action :: string
  level :: string
  requires_validation :: bool

definition requires_validation_of :: "string \<Rightarrow> real \<Rightarrow> bool" where
  \<comment> \<open>the dictionary keyed by automation level, with default \<open>True\<close>\<close>
  "requires_validation_of lvl risk_score =
     (if lvl = ''manual'' then True
      else if lvl = ''semi-auto'' then risk_score \<ge> 0.8
      else if lvl = ''auto'' then risk_score \<ge> 0.95
      else if lvl = ''strict'' then False
      else True)"

definition decide_action :: "risk_config \<Rightarrow> real \<Rightarrow> decision" where
  "decide_action cfg risk_score =
     (let (a, l) =
        (if risk_score \<ge> RISK_THRESHOLD_BLOCK cfg then (''BLOCK_IP'', ''CRITICAL'')
         else if risk_score \<ge> RISK_THRESHOLD_CAPTCHA cfg then (''CAPTCHA'', ''HIGH'')
         else if risk_score \<ge> 0.5 then (''RATE_LIMIT'', ''MEDIUM'')
         else (''ALERT_ONLY'', ''LOW''))
      in \<lparr>action = a, level = l,
          requires_validation = requires_validation_of (AUTOMATION_LEVEL cfg) risk_score\<rparr>)"

section \<open>The shared PostgreSQL database\<close>

text \<open>
  The services share one database. Each table is a list of rows in insertion order, except
  \<open>ip_reputation\<close>, whose primary key is the address and which is a map. Row identifiers
  (UUIDs) are strings; a freshly generated one (\<open>gen_random_uuid()\<close>) and the current time
  (\<open>NOW()\<close>, \<open>datetime.utcnow()\<close>) are arguments of the operation that needs them. A
  nullable column is an \<open>option\<close>. Columns that no modelled code reads (free text,
  JSON snapshots, MITRE labels and the like) are left out. The database itself is taken to
  be reachable.
\<close>

text \<open>
  A \<open>VARCHAR(n)\<close> column rejects a longer text: the statement raises and nothing is
  stored.
\<close>

definition varchar_ok :: "nat \<Rightarrow> string \<Rightarrow> bool" where
  "varchar_ok n v \<longleftrightarrow> length v \<le> n"

type_synonym uuid = string

record raw_request =
  rr_id :: uuid
  rr_timestamp :: nat
  rr_client_ip :: string
  rr_is_blocked :: "bool option"
  rr_is_suspicious :: "bool option"

record ml_prediction =
  mp_request_id :: uuid
  mp_predicted_at :: nat
  mp_anomaly_score :: "real option"
  mp_attack_type :: "string option"
  mp_attack_probability :: "real option"

record owasp_detection =
  od_request_id :: uuid
  od_owasp_category :: string
  od_severity :: "string option"

record ip_reputation_row =
  first_seen :: nat
  last_seen :: nat
  total_requests :: int
  blocked_requests :: int
  suspicious_requests :: int
  reputation_score :: real
  trust_level :: string
  is_whitelisted :: bool
  is_blacklisted :: bool
  blacklist_reason :: "string option"

record risk_assessment =
  ra_id :: uuid
  ra_request_id :: uuid
  ra_assessed_at :: nat
  ra_risk_score :: real
  ra_risk_level :: string
  ra_ml_score_weight :: real
  ra_owasp_score_weight :: real
  ra_behavioral_score_weight :: real
  ra_recommended_action :: string
  ra_automation_level :: string

record incident =
  inc_id :: uuid
  inc_created_at :: nat
  inc_incident_type :: string
  inc_severity :: string
  inc_status :: string
  inc_source_ip :: string
  inc_total_requests_involved :: int
  inc_blocked_requests_count :: int

record soar_action =
  sa_id :: uuid
  sa_risk_assessment_id :: "uuid option"
  sa_executed_at :: nat
  sa_action_type :: string
  sa_action_status :: string
  sa_target_ip :: string
  sa_duration_minutes :: int
  sa_execution_result :: string
  sa_rollback_at :: "nat option"
  sa_rollback_reason :: "string option"

record db =
  raw_requests :: "raw_request list"
  ml_predictions :: "ml_prediction list"
  owasp_detections :: "owasp_detection list"
  ip_reputation :: "string \<Rightarrow> ip_reputation_row option"
  risk_assessments :: "risk_assessment list"
  incidents :: "incident list"
  soar_actions :: "soar_action list"

definition empty_db :: db where
  "empty_db = \<lparr>raw_requests = [], ml_predictions = [], owasp_detections = [],
     ip_reputation = (\<lambda>ip. None), risk_assessments = [], incidents = [], soar_actions = []\<rparr>"

section \<open>Reputation tracking (the trigger of risk-engine/main.py, admin-console/backend/main.py)\<close>

subsection \<open>update_ip_rep\<close>

text \<open>
  \<open>update_ip_rep\<close> is the PL/pgSQL trigger function run after every insert into
  \<open>raw_requests\<close>. The counters are PostgreSQL \<open>INTEGER\<close>s: an addition that leaves the
  32-bit range raises an error, which aborts the insert.
\<close>

definition int4_add :: "int \<Rightarrow> int \<Rightarrow> error + int" where
  "int4_add a b =
     (if a + b < - 2147483648 \<or> 2147483647 < a + b then Inl IntegerOutOfRange else Inr (a + b))"

definition case_when_flag :: "bool option \<Rightarrow> int" where
  \<comment> \<open>\<open>CASE WHEN flag THEN 1 ELSE 0 END\<close>: a NULL flag takes the ELSE branch\<close>
  "case_when_flag f = (if f = Some True then 1 else 0)"

definition blocked_ratio_sql :: "int \<Rightarrow> int \<Rightarrow> real option" where
  \<comment> \<open>\<open>blocked::float / NULLIF(total, 0)\<close>: NULL when the divisor is 0\<close>
  "blocked_ratio_sql b t = (if t = 0 then None else Some (real_of_int b / real_of_int t))"

definition reputation_case :: "real option \<Rightarrow> real" where
  \<comment> \<open>the \<open>CASE\<close> of the trigger; a NULL ratio fails both \<open>WHEN\<close>s\<close>
  "reputation_case ratio =
     (case ratio of
        None \<Rightarrow> 0.7
      | Some q \<Rightarrow> if q > 0.5 then 0.1 else if q > 0.2 then 0.3 else 0.7)"

definition update_ip_rep ::
  "(string \<Rightarrow> ip_reputation_row option) \<Rightarrow> nat \<Rightarrow> raw_request
     \<Rightarrow> error + (string \<Rightarrow> ip_reputation_row option)" where
  "update_ip_rep tbl now new =
     (let excluded_blocked = case_when_flag (rr_is_blocked new);
          excluded_suspicious = case_when_flag (rr_is_suspicious new)
      in case tbl (rr_client_ip new) of
           None \<Rightarrow>
             Inr (tbl (rr_client_ip new \<mapsto>
               \<lparr>first_seen = now, last_seen = rr_timestamp new, total_requests = 1,
                blocked_requests = excluded_blocked, suspicious_requests = excluded_suspicious,
                reputation_score = 0.5, trust_level = ''NEUTRAL'', is_whitelisted = False,
                is_blacklisted = False, blacklist_reason = None\<rparr>))
         | Some r \<Rightarrow>
             bind_err (int4_add (total_requests r) 1) (\<lambda>new_total.
             bind_err (int4_add (blocked_requests r) excluded_blocked) (\<lambda>new_blocked.
             bind_err (int4_add (suspicious_requests r) excluded_suspicious) (\<lambda>new_suspicious.
             Inr (tbl (rr_client_ip new \<mapsto>
               r\<lparr>last_seen := rr_timestamp new, total_requests := new_total,
                 blocked_requests := new_blocked, suspicious_requests := new_suspicious,
                 reputation_score :=
                   reputation_case (blocked_ratio_sql new_blocked new_total)\<rparr>))))))"

definition insert_raw_request :: "db \<Rightarrow> nat \<Rightarrow> raw_request \<Rightarrow> error + db" where
  \<comment> \<open>the insert with its \<open>AFTER INSERT\<close> trigger \<open>trg_ip_rep\<close>; an error leaves no row\<close>
  "insert_raw_request d now new =
     (if \<not> varchar_ok 45 (rr_client_ip new)
      then Inl (DataError ''value too long for type character varying'')
      else bind_err (update_ip_rep (ip_reputation d) now new) (\<lambda>tbl.
           Inr (d\<lparr>raw_requests := raw_requests d @ [new], ip_reputation := tbl\<rparr>)))"

subsection \<open>The administrator's writes to ip_reputation\<close>

text \<open>
  \<open>block_ip\<close>, \<open>unblock_ip\<close> and \<open>whitelist_ip\<close> of the admin console, as far as the table
  \<open>ip_reputation\<close> goes (their calls to the WAF are left out). With an address longer
  than the column the statement fails and the table stays as it was.
\<close>

definition admin_block_ip_rep :: "db \<Rightarrow> nat \<Rightarrow> string \<Rightarrow> string \<Rightarrow> db" where
  "admin_block_ip_rep d now ip reason =
     (if \<not> varchar_ok 45 ip then d else
     d\<lparr>ip_reputation := (ip_reputation d) (ip \<mapsto>
       (case ip_reputation d ip of
          None \<Rightarrow>
            \<lparr>first_seen = now, last_seen = now, total_requests = 0, blocked_requests = 0,
             suspicious_requests = 0, reputation_score = 0.5, trust_level = ''MALICIOUS'',
             is_whitelisted = False, is_blacklisted = True, blacklist_reason = Some reason\<rparr>
        | Some r \<Rightarrow>
            r\<lparr>is_blacklisted := True, blacklist_reason := Some reason,
              trust_level := ''MALICIOUS''\<rparr>))\<rparr>)"

definition admin_unblock_ip_rep :: "db \<Rightarrow> string \<Rightarrow> db" where
  "admin_unblock_ip_rep d ip =
     (case ip_reputation d ip of
        None \<Rightarrow> d
      | Some r \<Rightarrow> d\<lparr>ip_reputation := (ip_reputation d) (ip \<mapsto> r\<lparr>is_blacklisted := False\<rparr>)\<rparr>)"

definition whitelist_ip :: "db \<Rightarrow> nat \<Rightarrow> string \<Rightarrow> db" where
  "whitelist_ip d now ip =
     (if \<not> varchar_ok 45 ip then d else
     d\<lparr>ip_reputation := (ip_reputation d) (ip \<mapsto>
       (case ip_reputation d ip of
          None \<Rightarrow>
            \<lparr>first_seen = now, last_seen = now, total_requests = 0, blocked_requests = 0,
             suspicious_requests = 0, reputation_score = 1.0, trust_level = ''TRUSTED'',
             is_whitelisted = True, is_blacklisted = False, blacklist_reason = None\<rparr>
        | Some r \<Rightarrow>
            r\<lparr>is_whitelisted := True, trust_level := ''TRUSTED'',
              reputation_score := 1.0\<rparr>))\<rparr>)"

subsection \<open>Histories of a reputation table\<close>

text \<open>
  Everything that writes \<open>ip_reputation\<close>: the insert of a request row (with the time of
  the insert) and the three administrator operations. A failed insert changes nothing.
\<close>

datatype rep_event =
    Insert_request nat raw_request
  | Admin_block nat string string
  | Admin_unblock string
  | Admin_whitelist nat string

fun rep_step :: "db \<Rightarrow> rep_event \<Rightarrow> db" where
  "rep_step d (Insert_request now new) =
     (case insert_raw_request d now new of Inl e \<Rightarrow> d | Inr d' \<Rightarrow> d')"
| "rep_step d (Admin_block now ip reason) = admin_block_ip_rep d now ip reason"
| "rep_step d (Admin_unblock ip) = admin_unblock_ip_rep d ip"
| "rep_step d (Admin_whitelist now ip) = whitelist_ip d now ip"

definition rep_run :: "rep_event list \<Rightarrow> db" where
  "rep_run evs = fold (\<lambda>ev d. rep_step d ev) evs empty_db"

definition rep_summary :: "ip_reputation_row option \<Rightarrow> (int \<times> int \<times> bool \<times> bool \<times> real) option" where
  \<comment> \<open>total, blocked, whitelisted, blacklisted and score of a stored record\<close>
  "rep_summary row =
     map_option (\<lambda>r. (total_requests r, blocked_requests r, is_whitelisted r, is_blacklisted r,
                      reputation_score r)) row"

definition request_from :: "string \<Rightarrow> uuid \<Rightarrow> nat \<Rightarrow> bool \<Rightarrow> raw_request" where
  \<comment> \<open>a request row as the ingestion service stores it\<close>
  "request_from ip i t blocked =
     \<lparr>rr_id = i, rr_timestamp = t, rr_client_ip = ip, rr_is_blocked = Some blocked,
      rr_is_suspicious = Some blocked\<rparr>"

text \<open>The counters of every stored record are consistent.\<close>

definition rep_ok :: "db \<Rightarrow> bool" where
  "rep_ok d \<longleftrightarrow> (\<forall>ip r. ip_reputation d ip = Some r \<longrightarrow>
      0 \<le> blocked_requests r \<and> blocked_requests r \<le> total_requests r)"

section \<open>Risk engine: assess_risk\<close>

definition opt_float :: "real option \<Rightarrow> pyval" where
  "opt_float x = (case x of None \<Rightarrow> PNone | Some v \<Rightarrow> PFloat v)"

definition opt_str :: "string option \<Rightarrow> pyval" where
  "opt_str x = (case x of None \<Rightarrow> PNone | Some v \<Rightarrow> PStr v)"

definition latest_prediction :: "ml_prediction list \<Rightarrow> uuid \<Rightarrow> ml_prediction option" where
  \<comment> \<open>\<open>WHERE request_id = rid ORDER BY predicted_at DESC LIMIT 1\<close>; among rows of equal
      time, which PostgreSQL may return in any order, the earliest inserted\<close>
  "latest_prediction rows rid =
     fold (\<lambda>r best.
            if mp_request_id r = rid
               \<and> (case best of None \<Rightarrow> True | Some b \<Rightarrow> mp_predicted_at b < mp_predicted_at r)
            then Some r else best)
          rows None"

definition ml_row_dict :: "ml_prediction \<Rightarrow> pydict" where
  "ml_row_dict r =
     [(''anomaly_score'', opt_float (mp_anomaly_score r)),
      (''attack_type'', opt_str (mp_attack_type r)),
      (''attack_probability'', opt_float (mp_attack_probability r))]"

definition owasp_row_dict :: "owasp_detection \<Rightarrow> pydict" where
  "owasp_row_dict r =
     [(''owasp_category'', PStr (od_owasp_category r)), (''severity'', opt_str (od_severity r))]"

record assess_response =
  resp_success :: bool
  resp_assessment_id :: uuid
  resp_risk_score :: real
  resp_risk_level :: string
  resp_recommended_action :: string
  resp_requires_validation :: bool
  resp_client_ip :: string

definition assess_risk :: "risk_config \<Rightarrow> nat \<Rightarrow> uuid \<Rightarrow> db \<Rightarrow> uuid \<Rightarrow> error + (assess_response \<times> db)" where
  "assess_risk cfg now new_id d request_id =
     map_sum (http_500 ''Risk error: '') id (
       let ml = latest_prediction (ml_predictions d) request_id;
           owasp = filter (\<lambda>r. od_request_id r = request_id) (owasp_detections d)
       in case find (\<lambda>r. rr_id r = request_id) (raw_requests d) of
            None \<Rightarrow> Inl (HTTPException 404 ''Request not found'')
          | Some rr \<Rightarrow>
              let ip_rep = ip_reputation d (rr_client_ip rr);
                  ml_data = (case ml of None \<Rightarrow> [] | Some r \<Rightarrow> ml_row_dict r);
                  owasp_data = map owasp_row_dict owasp;
                  behavioral =
                    (case ip_rep of
                       None \<Rightarrow> []
                     | Some rep \<Rightarrow>
                         [(''blocked_ratio'',
                           PFloat (real_of_int (blocked_requests rep)
                                   / real_of_int (max (total_requests rep) 1))),
                          (''reputation_score'', PFloat (reputation_score rep))])
              in bind_err (calculate_risk ml_data owasp_data behavioral) (\<lambda>risk_score.
                 let decision = decide_action cfg risk_score in
                 bind_err (weight ''ml'') (\<lambda>w_ml.
                 bind_err (weight ''owasp'') (\<lambda>w_owasp.
                 bind_err (weight ''behavioral'') (\<lambda>w_behavioral.
                 Inr (\<lparr>resp_success = True, resp_assessment_id = new_id,
                       resp_risk_score = risk_score, resp_risk_level = level decision,
                       resp_recommended_action = action decision,
                       resp_requires_validation = requires_validation decision,
                       resp_client_ip = rr_client_ip rr\<rparr>,
                      d\<lparr>risk_assessments := risk_assessments d @
                         [\<lparr>ra_id = new_id, ra_request_id = request_id, ra_assessed_at = now,
                           ra_risk_score = risk_score, ra_risk_level = level decision,
                           ra_ml_score_weight = w_ml, ra_owasp_score_weight = w_owasp,
                           ra_behavioral_score_weight = w_behavioral,
                           ra_recommended_action = action decision,
                           ra_automation_level = AUTOMATION_LEVEL cfg\<rparr>]\<rparr>))))))"

definition assess_summary :: "error + (assess_response \<times> db) \<Rightarrow> error + (real \<times> string)" where
  \<comment> \<open>score and recommended action of a completed assessment\<close>
  "assess_summary res =
     map_sum id (\<lambda>p. (resp_risk_score (fst p), resp_recommended_action (fst p))) res"

text \<open>
  A database with one request that has an XSS/HIGH detection, a source with 1 blocked
  request out of 4, and no prediction of the machine-learning engine for the request.
\<close>

definition example_db :: db where
  "example_db = empty_db
     \<lparr>raw_requests := [request_from ''203.0.113.7'' ''r1'' 1 False],
      owasp_detections :=
        [\<lparr>od_request_id = ''r1'', od_owasp_category = ''XSS'', od_severity = Some ''HIGH''\<rparr>],
      ml_predictions :=
        [\<lparr>mp_request_id = ''r0'', mp_predicted_at = 0, mp_anomaly_score = Some 0.9,
          mp_attack_type = Some ''XSS'', mp_attack_probability = Some 0.9\<rparr>],
      ip_reputation := [''203.0.113.7'' \<mapsto>
         \<lparr>first_seen = 0, last_seen = 1, total_requests = 4, blocked_requests = 1,
          suspicious_requests = 1, reputation_score = 0.3, trust_level = ''NEUTRAL'',
          is_whitelisted = False, is_blacklisted = False, blacklist_reason = None\<rparr>]\<rparr>"

section \<open>The shared Redis store and the WAF's administration endpoints (waf/main.py)\<close>

text \<open>
  The enforcement state is a Redis store shared by the WAF and the SOAR engine: a key maps
  to its value and the time to live it was set with. Expiry by the passing of time is not
  modelled: an entry stays until it is deleted or overwritten. \<open>SETEX\<close> with a time to
  live that is not positive is rejected by Redis.
\<close>

type_synonym redis = "string \<Rightarrow> (string \<times> int) option"

definition redis_setex :: "redis \<Rightarrow> string \<Rightarrow> int \<Rightarrow> string \<Rightarrow> error + redis" where
  "redis_setex store key ttl v =
     (if ttl \<le> 0 then Inl (RedisError ''invalid expire time in setex'')
      else Inr (store (key \<mapsto> (v, ttl))))"


definition waf_block_ip :: "bool \<Rightarrow> redis \<Rightarrow> string \<Rightarrow> string \<Rightarrow> int \<Rightarrow> redis" where
  \<comment> \<open>\<open>block_ip\<close> of the WAF; the first argument says whether the WAF has a Redis client;
      an exception of \<open>setex\<close> is printed and swallowed\<close>
  "waf_block_ip has_client store client_ip reason duration_minutes =
     (if \<not> has_client then store
      else case redis_setex store (''blocked_ip:'' @ client_ip) (duration_minutes * 60) reason of
             Inl e \<Rightarrow> store
           | Inr store' \<Rightarrow> store')"

definition admin_block_ip :: "bool \<Rightarrow> redis \<Rightarrow> string \<Rightarrow> string \<Rightarrow> int \<Rightarrow> redis" where
  \<comment> \<open>handler of \<open>POST /admin/block-ip\<close>; it always answers 200\<close>
  "admin_block_ip has_client store ip reason duration_minutes =
     waf_block_ip has_client store ip reason duration_minutes"


text \<open>
  What an HTTP request to the WAF comes to, seen from the caller: an exception (connection
  refused, timeout) or a reply with a status code. A reply 200 from an administration
  endpoint is produced by its handler, which has then run; with any other outcome the
  handler has not run.
\<close>

datatype http_outcome = Unreachable string | Status nat

section \<open>SOAR engine (soar/main.py)\<close>

subsection \<open>Configuration and state\<close>

text \<open>
  \<open>ENABLE_AUTO_BLOCK\<close>, \<open>ENABLE_CAPTCHA\<close> and \<open>BLOCK_DURATION\<close> are read from the
  environment when the service starts (defaults: true, true, 60). \<open>redis_client\<close> says
  whether the SOAR engine holds a Redis client (it is \<open>None\<close> in the source before a
  connection is made), \<open>waf_redis_client\<close> the same for the WAF.
\<close>

record soar_env =
  ENABLE_AUTO_BLOCK :: bool
  ENABLE_CAPTCHA :: bool
  BLOCK_DURATION :: int
  redis_client :: bool
  waf_redis_client :: bool


record sys =
  sys_db :: db
  sys_redis :: redis

record action_result =
  executed :: bool
  message :: string

subsection \<open>execute_action\<close>

definition execute_action ::
  "soar_env \<Rightarrow> http_outcome \<Rightarrow> redis \<Rightarrow> string \<Rightarrow> string \<Rightarrow> int \<Rightarrow> error + (action_result \<times> redis)" where
  "execute_action env waf store action_type target_ip duration_minutes =
     (if action_type = ''BLOCK_IP'' \<and> ENABLE_AUTO_BLOCK env then
        (case waf of
           Unreachable e \<Rightarrow>
             Inr (\<lparr>executed = False, message = ''WAF unreachable: '' @ e\<rparr>, store)
         | Status status_code \<Rightarrow>
             if status_code = 200 then
               (let store1 = admin_block_ip (waf_redis_client env) store target_ip
                               ''Auto-blocked by SOAR'' duration_minutes
                in if redis_client env then
                     (case redis_setex store1 (''blocked_ip:'' @ target_ip)
                             (duration_minutes * 60) ''SOAR_AUTO_BLOCK'' of
                        Inl e \<Rightarrow>
                          Inr (\<lparr>executed = False,
                                message = ''WAF unreachable: '' @ str_error e\<rparr>, store1)
                      | Inr store2 \<Rightarrow>
                          Inr (\<lparr>executed = True,
                                message = ''IP '' @ target_ip @ '' blocked for ''
                                          @ str_int duration_minutes @ ''min''\<rparr>, store2))
                   else
                     Inr (\<lparr>executed = True,
                           message = ''IP '' @ target_ip @ '' blocked for ''
                                     @ str_int duration_minutes @ ''min''\<rparr>, store1))
             else
               Inr (\<lparr>executed = False, message = ''WAF returned '' @ str_nat status_code\<rparr>,
                    store))
      else if action_type = ''CAPTCHA'' \<and> ENABLE_CAPTCHA env then
        bind_err
          (if redis_client env
           then redis_setex store (''require_captcha:'' @ target_ip) (duration_minutes * 60) ''1''
           else Inr store)
          (\<lambda>store'. Inr (\<lparr>executed = True,
                            message = ''CAPTCHA required for '' @ target_ip\<rparr>, store'))
      else if action_type = ''RATE_LIMIT'' then
        bind_err
          (if redis_client env
           then redis_setex store (''rate_limit_strict:'' @ target_ip) (duration_minutes * 60) ''10''
           else Inr store)
          (\<lambda>store'. Inr (\<lparr>executed = True,
                            message = ''Strict rate limit (10/min) applied to '' @ target_ip\<rparr>,
                          store'))
      else if action_type = ''ALERT_ONLY'' then
        Inr (\<lparr>executed = True,
              message = ''Alert logged '' @ [CHR 0xE2, CHR 0x80, CHR 0x94]
                        @ '' no blocking action''\<rparr>, store)
      else
        Inr (\<lparr>executed = False, message = ''Unknown action: '' @ action_type\<rparr>, store))"

subsection \<open>execute_soar, manual_action, create_incident\<close>



definition insert_soar_action :: "db \<Rightarrow> soar_action \<Rightarrow> error + db" where
  "insert_soar_action d row =
     (if varchar_ok 50 (sa_action_type row) \<and> varchar_ok 20 (sa_action_status row)
         \<and> varchar_ok 45 (sa_target_ip row)
      then Inr (d\<lparr>soar_actions := soar_actions d @ [row]\<rparr>)
      else Inl (DataError ''value too long for type character varying''))"

definition insert_incident :: "db \<Rightarrow> incident \<Rightarrow> error + db" where
  "insert_incident d row =
     (if varchar_ok 100 (inc_incident_type row) \<and> varchar_ok 20 (inc_severity row)
         \<and> varchar_ok 20 (inc_status row) \<and> varchar_ok 45 (inc_source_ip row)
      then Inr (d\<lparr>incidents := incidents d @ [row]\<rparr>)
      else Inl (DataError ''value too long for type character varying''))"



record manual_action_request =
  mar_target_ip :: string
  mar_action_type :: string
  mar_reason :: string
  mar_duration_minutes :: int

record manual_action_response =
  mr_success :: bool
  mr_action_id :: uuid
  mr_executed :: bool
  mr_message :: string

definition manual_action ::
  "soar_env \<Rightarrow> http_outcome \<Rightarrow> nat \<Rightarrow> uuid \<Rightarrow> sys \<Rightarrow> manual_action_request
     \<Rightarrow> (error + manual_action_response) \<times> sys" where
  "manual_action env waf now new_action_id st req =
     (case execute_action env waf (sys_redis st) (mar_action_type req) (mar_target_ip req)
             (mar_duration_minutes req) of
        Inl e \<Rightarrow> (Inl e, st)
      | Inr (result, store') \<Rightarrow>
          let st1 = st\<lparr>sys_redis := store'\<rparr> in
          case insert_soar_action (sys_db st)
                 \<lparr>sa_id = new_action_id, sa_risk_assessment_id = None,
                  sa_executed_at = now, sa_action_type = mar_action_type req,
                  sa_action_status = (if executed result then ''EXECUTED'' else ''FAILED''),
                  sa_target_ip = mar_target_ip req,
                  sa_duration_minutes = mar_duration_minutes req,
                  sa_execution_result = message result,
                  sa_rollback_at = None, sa_rollback_reason = None\<rparr> of
            Inl e \<Rightarrow> (Inl e, st1)
          | Inr d' \<Rightarrow>
              (Inr \<lparr>mr_success = executed result, mr_action_id = new_action_id,
                    mr_executed = executed result, mr_message = message result\<rparr>,
               st1\<lparr>sys_db := d'\<rparr>))"

record incident_request =
  ir_incident_type :: string
  ir_severity :: string
  ir_source_ip :: string
  ir_description :: string

definition create_incident :: "nat \<Rightarrow> uuid \<Rightarrow> db \<Rightarrow> incident_request \<Rightarrow> error + (uuid \<times> db)" where
  "create_incident now new_id d req =
     map_sum id (\<lambda>d'. (new_id, d'))
       (insert_incident d
          \<lparr>inc_id = new_id, inc_created_at = now, inc_incident_type = ir_incident_type req,
           inc_severity = ir_severity req, inc_status = ''OPEN'',
           inc_source_ip = ir_source_ip req, inc_total_requests_involved = 1,
           inc_blocked_requests_count = 0\<rparr>)"

subsection \<open>rollback\<close>





subsection \<open>Outcomes and example states used in the statements below\<close>

text \<open>
  A request to the enforcement point fails when it raises or is answered with a status
  other than 200; \<open>block_failure_message\<close> is the text execute_action reports then.
\<close>

fun failing :: "http_outcome \<Rightarrow> bool" where
  "failing (Unreachable e) = True"
| "failing (Status c) = (c \<noteq> 200)"

fun block_failure_message :: "http_outcome \<Rightarrow> string" where
  "block_failure_message (Unreachable e) = ''WAF unreachable: '' @ e"
| "block_failure_message (Status c) = ''WAF returned '' @ str_nat c"








definition action_status :: "sys \<Rightarrow> uuid \<Rightarrow> string option" where
  "action_status st action_id =
     map_option sa_action_status (find (\<lambda>a. sa_id a = action_id) (soar_actions (sys_db st)))"


section \<open>WAF detection engine (waf/main.py)\<close>

subsection \<open>Regular expressions\<close>







text \<open>A position: the character before it (none at the start) and the text after it.\<close>

type_synonym pos = "char option \<times> string"











subsection \<open>OWASP_PATTERNS and SUSPICIOUS_USER_AGENTS\<close>











subsection \<open>detect_owasp\<close>













section \<open>Properties of the risk score and the decision\<close>

lemma weight_ml: "weight ''ml'' = Inr 0.4"
  by (simp add: weight_def WEIGHTS_def)

lemma weight_owasp: "weight ''owasp'' = Inr 0.3"
  by (simp add: weight_def WEIGHTS_def)

lemma weight_behavioral: "weight ''behavioral'' = Inr 0.2"
  by (simp add: weight_def WEIGHTS_def)

lemma severity_score_le_1: "severity_score v \<le> 1"
proof (cases v)
  case (PStr s)
  have "map_of severity_map s = None \<or> map_of severity_map s \<in> Some ` {1.0, 0.8, 0.5, 0.3}"
    by (simp add: severity_map_def)
  then show ?thesis using PStr by (auto split: option.splits)
qed simp_all

lemma severity_score_ge_0: "0 \<le> severity_score v"
proof (cases v)
  case (PStr s)
  have "map_of severity_map s = None \<or> map_of severity_map s \<in> Some ` {1.0, 0.8, 0.5, 0.3}"
    by (simp add: severity_map_def)
  then show ?thesis using PStr by (auto split: option.splits)
qed simp_all

lemma fold_max_bounds:
  fixes x :: real
  assumes "lo \<le> x" "x \<le> hi" "\<forall>y \<in> set xs. lo \<le> y \<and> y \<le> hi"
  shows "lo \<le> fold max xs x \<and> fold max xs x \<le> hi"
  using assms by (induction xs arbitrary: x) auto

lemma fold_max_ge: "(x::real) \<le> fold max xs x"
proof (induction xs arbitrary: x)
  case Nil
  show ?case by simp
next
  case (Cons y ys)
  have "x \<le> max y x" by simp
  also have "\<dots> \<le> fold max ys (max y x)" by (rule Cons.IH)
  finally show ?case by simp
qed

lemma fold_max_ge_mem: "(y::real) \<in> set xs \<Longrightarrow> y \<le> fold max xs x"
proof (induction xs arbitrary: x)
  case Nil
  then show ?case by simp
next
  case (Cons z zs)
  show ?case
  proof (cases "y = z")
    case True
    have "y \<le> max z x" using True by simp
    also have "\<dots> \<le> fold max zs (max z x)" by (rule fold_max_ge)
    finally show ?thesis by simp
  next
    case False
    then have "y \<in> set zs" using Cons.prems by simp
    then show ?thesis using Cons.IH by simp
  qed
qed

lemma owasp_score_bounds: "0 \<le> owasp_score_of ds \<and> owasp_score_of ds \<le> 1"
proof (cases ds)
  case Nil
  then show ?thesis by (simp add: owasp_score_of_def)
next
  case (Cons d ds')
  have "0 \<le> fold max (map (\<lambda>d. severity_score (dict_get d ''severity'' (PStr ''LOW''))) ds')
              (severity_score (dict_get d ''severity'' (PStr ''LOW'')))
        \<and> fold max (map (\<lambda>d. severity_score (dict_get d ''severity'' (PStr ''LOW''))) ds')
              (severity_score (dict_get d ''severity'' (PStr ''LOW''))) \<le> 1"
    by (rule fold_max_bounds) (auto simp: severity_score_le_1 severity_score_ge_0)
  then show ?thesis using Cons by (simp add: owasp_score_of_def)
qed

lemma owasp_score_critical:
  assumes "d \<in> set ds" "map_of d ''severity'' = Some (PStr ''CRITICAL'')"
  shows "owasp_score_of ds = 1"
proof -
  let ?f = "\<lambda>d. severity_score (dict_get d ''severity'' (PStr ''LOW''))"
  have fd: "?f d = 1" using assms(2) by (simp add: dict_get_def severity_map_def)
  obtain e es where ds: "ds = e # es" using assms(1) by (cases ds) auto
  have "1 \<le> fold max (map ?f es) (?f e)"
  proof (cases "d = e")
    case True
    then show ?thesis using fd fold_max_ge [of "?f e" "map ?f es"] by simp
  next
    case False
    then have "d \<in> set es" using assms(1) ds by simp
    then have "?f d \<in> set (map ?f es)" by simp
    then have "?f d \<le> fold max (map ?f es) (?f e)" by (rule fold_max_ge_mem)
    then show ?thesis using fd by simp
  qed
  then have "1 \<le> owasp_score_of ds" using ds by (simp add: owasp_score_of_def)
  then show ?thesis using owasp_score_bounds [of ds] by simp
qed




lemma calculate_risk_components:
  assumes "ml_score_of ml_data = Inr m" "behavioral_score_of behavioral = Inr b"
  shows "calculate_risk ml_data owasp_data behavioral =
           Inr (min (m * 0.4 + owasp_score_of owasp_data * 0.3 + b * 0.2) 1)"
  using assms
  by (simp add: calculate_risk_def bind_err_def weight_ml weight_owasp weight_behavioral Let_def)


text \<open>
  C1 (as the code behaves). For every request whose detections include one with category
  SQL_INJECTION and severity CRITICAL, whose verdict of the machine-learning engine has
  anomaly_score 0.9 and attack_probability 0.8 and whose blocked_ratio is 0.6, the risk score is
  (0.9 * 0.6 + 0.8 * 0.4) * 0.4 + 1.0 * 0.3 + 1.0 * 0.2 = 0.844, which is below the default
  block threshold 0.9 and at least the captcha threshold 0.7: the decision is CAPTCHA with
  level HIGH, not BLOCK_IP with level CRITICAL.
\<close>

theorem C1_scenario_score_is_captcha:
  assumes "d \<in> set owasp_data"
    and "map_of d ''owasp_category'' = Some (PStr ''SQL_INJECTION'')"
    and "map_of d ''severity'' = Some (PStr ''CRITICAL'')"
    and "map_of ml_data ''anomaly_score'' = Some (PFloat 0.9)"
    and "map_of ml_data ''attack_probability'' = Some (PFloat 0.8)"
    and "map_of behavioral ''blocked_ratio'' = Some (PFloat 0.6)"
  shows "calculate_risk ml_data owasp_data behavioral = Inr 0.844
       \<and> 0.844 < RISK_THRESHOLD_BLOCK default_config
       \<and> action (decide_action default_config 0.844) = ''CAPTCHA''
       \<and> level (decide_action default_config 0.844) = ''HIGH''"
proof -
  have ne: "ml_data \<noteq> []" using assms(4) by auto
  have m: "ml_score_of ml_data = Inr 0.86"
    using ne assms(4,5) by (simp add: ml_score_of_def bind_err_def dict_get_def)
  have b: "behavioral_score_of behavioral = Inr 1"
    using assms(6) by (simp add: behavioral_score_of_def bind_err_def dict_get_def)
  have o: "owasp_score_of owasp_data = 1"
    using assms(1,3) by (rule owasp_score_critical)
  have "calculate_risk ml_data owasp_data behavioral = Inr 0.844"
    using calculate_risk_components [OF m b, of owasp_data] o by simp
  moreover have "0.844 < RISK_THRESHOLD_BLOCK default_config"
    by (simp add: default_config_def)
  moreover have "action (decide_action default_config 0.844) = ''CAPTCHA''"
    by (simp add: decide_action_def default_config_def)
  moreover have "level (decide_action default_config 0.844) = ''HIGH''"
    by (simp add: decide_action_def default_config_def)
  ultimately show ?thesis by simp
qed

theorem C1_scenario_score_is_captcha_witness:
  "calculate_risk
     [(''anomaly_score'', PFloat 0.9), (''attack_type'', PStr ''SQL_INJECTION''),
      (''attack_probability'', PFloat 0.8)]
     [ [(''owasp_category'', PStr ''XSS''), (''severity'', PStr ''HIGH'')],
      [(''owasp_category'', PStr ''SQL_INJECTION''), (''severity'', PStr ''CRITICAL'')]]
     [(''blocked_ratio'', PFloat 0.6), (''reputation_score'', PFloat 0.1)] = Inr 0.844
   \<and> action (decide_action default_config 0.844) = ''CAPTCHA''
   \<and> level (decide_action default_config 0.844) = ''HIGH''"
  using C1_scenario_score_is_captcha
    [of "[(''owasp_category'', PStr ''SQL_INJECTION''), (''severity'', PStr ''CRITICAL'')]"
        "[ [(''owasp_category'', PStr ''XSS''), (''severity'', PStr ''HIGH'')],
          [(''owasp_category'', PStr ''SQL_INJECTION''), (''severity'', PStr ''CRITICAL'')]]"
        "[(''anomaly_score'', PFloat 0.9), (''attack_type'', PStr ''SQL_INJECTION''),
          (''attack_probability'', PFloat 0.8)]"
        "[(''blocked_ratio'', PFloat 0.6), (''reputation_score'', PFloat 0.1)]"]
  by simp

text \<open>
  C1 as stated fails: at the scenario's own input (one SQL_INJECTION/CRITICAL detection,
  verdict 0.9/0.8, blocked_ratio 0.6) the score does not reach the block threshold and the
  action is not BLOCK_IP.
\<close>

theorem C1_scenario_counterexample:
  "calculate_risk
     [(''anomaly_score'', PFloat 0.9), (''attack_type'', PStr ''SQL_INJECTION''),
      (''attack_probability'', PFloat 0.8)]
     [ [(''owasp_category'', PStr ''SQL_INJECTION''), (''severity'', PStr ''CRITICAL'')]]
     [(''blocked_ratio'', PFloat 0.6), (''reputation_score'', PFloat 0.1)] = Inr (211 / 250)
   \<and> \<not> (211 / 250 \<ge> RISK_THRESHOLD_BLOCK default_config)
   \<and> decide_action default_config (211 / 250)
       = \<lparr>action = ''CAPTCHA'', level = ''HIGH'', requires_validation = True\<rparr>
   \<and> action (decide_action default_config (211 / 250)) \<noteq> ''BLOCK_IP''
   \<and> level (decide_action default_config (211 / 250)) \<noteq> ''CRITICAL''"
  by (simp add: calculate_risk_def ml_score_of_def owasp_score_of_def behavioral_score_of_def
      bind_err_def dict_get_def weight_def WEIGHTS_def severity_map_def decide_action_def
      default_config_def requires_validation_of_def)



text \<open>
  C3. decide_action puts every score in exactly one of four bands, tested in this order:
  score >= block threshold gives BLOCK_IP/CRITICAL; otherwise score >= captcha threshold
  gives CAPTCHA/HIGH; otherwise score >= 0.5 gives RATE_LIMIT/MEDIUM; otherwise
  ALERT_ONLY/LOW. A score equal to the block threshold gives BLOCK_IP. The thresholds are
  those of the configuration, whatever their values.
\<close>

theorem C3_decision_bands:
  "((action (decide_action cfg s), level (decide_action cfg s)) = (''BLOCK_IP'', ''CRITICAL''))
      = (s \<ge> RISK_THRESHOLD_BLOCK cfg)
   \<and> ((action (decide_action cfg s), level (decide_action cfg s)) = (''CAPTCHA'', ''HIGH''))
      = (s < RISK_THRESHOLD_BLOCK cfg \<and> s \<ge> RISK_THRESHOLD_CAPTCHA cfg)
   \<and> ((action (decide_action cfg s), level (decide_action cfg s)) = (''RATE_LIMIT'', ''MEDIUM''))
      = (s < RISK_THRESHOLD_BLOCK cfg \<and> s < RISK_THRESHOLD_CAPTCHA cfg \<and> s \<ge> 0.5)
   \<and> ((action (decide_action cfg s), level (decide_action cfg s)) = (''ALERT_ONLY'', ''LOW''))
      = (s < RISK_THRESHOLD_BLOCK cfg \<and> s < RISK_THRESHOLD_CAPTCHA cfg \<and> s < 0.5)
   \<and> (action (decide_action cfg s), level (decide_action cfg s))
      \<in> {(''BLOCK_IP'', ''CRITICAL''), (''CAPTCHA'', ''HIGH''),
         (''RATE_LIMIT'', ''MEDIUM''), (''ALERT_ONLY'', ''LOW'')}
   \<and> action (decide_action cfg (RISK_THRESHOLD_BLOCK cfg)) = ''BLOCK_IP''"
  by (simp add: decide_action_def)

theorem C3_decision_bands_witness:
  "action (decide_action default_config 0.9) = ''BLOCK_IP''
   \<and> action (decide_action default_config 0.7) = ''CAPTCHA''
   \<and> action (decide_action default_config 0.5) = ''RATE_LIMIT''
   \<and> action (decide_action default_config 0.25) = ''ALERT_ONLY''"
  using C3_decision_bands [of default_config "0.9"] C3_decision_bands [of default_config "0.7"]
    C3_decision_bands [of default_config "0.5"] C3_decision_bands [of default_config "0.25"]
  by (simp add: default_config_def)

section \<open>Properties of assess_risk and of the reputation trigger\<close>

lemma latest_prediction_fold_none:
  assumes "\<forall>r \<in> set rows. mp_request_id r \<noteq> rid"
  shows "fold (\<lambda>r best.
            if mp_request_id r = rid
               \<and> (case best of None \<Rightarrow> True | Some b \<Rightarrow> mp_predicted_at b < mp_predicted_at r)
            then Some r else best) rows best = best"
  using assms by (induction rows arbitrary: best) auto

lemma latest_prediction_none:
  "\<forall>r \<in> set rows. mp_request_id r \<noteq> rid \<Longrightarrow> latest_prediction rows rid = None"
  unfolding latest_prediction_def by (rule latest_prediction_fold_none)

lemma behavioral_score_total: 
  "\<exists>b. behavioral_score_of
     (case rep of None \<Rightarrow> []
      | Some rep \<Rightarrow> [(''blocked_ratio'', PFloat (real_of_int (blocked_requests rep)
                                   / real_of_int (max (total_requests rep) 1))),
                     (''reputation_score'', PFloat (reputation_score rep))]) = Inr b \<and> b \<le> 1"
  by (cases rep) (simp_all add: behavioral_score_of_def bind_err_def dict_get_def)

text \<open>
  C10. If the request exists and no prediction row exists for it (the risk engine never
  calls the machine-learning service; it only reads \<open>ml_predictions\<close>, so an unreachable
  service shows as a missing row), assess_risk completes without error: ml_score is 0,
  the score is owasp_component * 0.3 + behavioral_component * 0.2, the action is decided
  from that score and the assessment row is stored.
\<close>

theorem C10_missing_verdict_scored_without_ml:
  assumes "find (\<lambda>r. rr_id r = rid) (raw_requests d) = Some rr"
    and "\<forall>r \<in> set (ml_predictions d). mp_request_id r \<noteq> rid"
  shows "\<exists>resp d' b row.
           assess_risk cfg now new_id d rid = Inr (resp, d')
         \<and> ml_score_of [] = Inr 0
         \<and> behavioral_score_of
             (case ip_reputation d (rr_client_ip rr) of None \<Rightarrow> []
              | Some rep \<Rightarrow>
                  [(''blocked_ratio'', PFloat (real_of_int (blocked_requests rep)
                                   / real_of_int (max (total_requests rep) 1))),
                   (''reputation_score'', PFloat (reputation_score rep))]) = Inr b
         \<and> resp_risk_score resp
             = owasp_score_of (map owasp_row_dict
                 (filter (\<lambda>r. od_request_id r = rid) (owasp_detections d))) * 0.3 + b * 0.2
         \<and> resp_success resp
         \<and> resp_recommended_action resp = action (decide_action cfg (resp_risk_score resp))
         \<and> risk_assessments d' = risk_assessments d @ [row]
         \<and> ra_request_id row = rid \<and> ra_risk_score row = resp_risk_score resp"
proof -
  let ?beh = "case ip_reputation d (rr_client_ip rr) of None \<Rightarrow> []
              | Some rep \<Rightarrow>
                  [(''blocked_ratio'', PFloat (real_of_int (blocked_requests rep)
                                   / real_of_int (max (total_requests rep) 1))),
                   (''reputation_score'', PFloat (reputation_score rep))]"
  let ?ow = "map owasp_row_dict (filter (\<lambda>r. od_request_id r = rid) (owasp_detections d))"
  obtain b where b: "behavioral_score_of ?beh = Inr b" "b \<le> 1"
    using behavioral_score_total [of "ip_reputation d (rr_client_ip rr)"] by blast
  have ml: "latest_prediction (ml_predictions d) rid = None"
    using assms(2) by (rule latest_prediction_none)
  have m0: "ml_score_of [] = Inr 0" by (simp add: ml_score_of_def)
  define s where "s = owasp_score_of ?ow * 0.3 + b * 0.2"
  have "s \<le> 1" using owasp_score_bounds [of ?ow] b(2) by (simp add: s_def)
  then have c: "calculate_risk [] ?ow ?beh = Inr s"
    using calculate_risk_components [OF m0 b(1), of ?ow] by (simp add: s_def)
  define row where "row = \<lparr>ra_id = new_id, ra_request_id = rid, ra_assessed_at = now,
                ra_risk_score = s, ra_risk_level = level (decide_action cfg s),
                ra_ml_score_weight = 0.4, ra_owasp_score_weight = 0.3,
                ra_behavioral_score_weight = 0.2,
                ra_recommended_action = action (decide_action cfg s),
                ra_automation_level = AUTOMATION_LEVEL cfg\<rparr>"
  define resp where "resp = \<lparr>resp_success = True, resp_assessment_id = new_id,
            resp_risk_score = s, resp_risk_level = level (decide_action cfg s),
            resp_recommended_action = action (decide_action cfg s),
            resp_requires_validation = requires_validation (decide_action cfg s),
            resp_client_ip = rr_client_ip rr\<rparr>"
  have run: "assess_risk cfg now new_id d rid =
      Inr (resp, d\<lparr>risk_assessments := risk_assessments d @ [row]\<rparr>)"
    unfolding assess_risk_def resp_def row_def
    by (simp add: assms(1) ml c Let_def bind_err_def weight_ml weight_owasp
        weight_behavioral)
  have props: "resp_risk_score resp = s" "resp_success resp"
    "resp_recommended_action resp = action (decide_action cfg (resp_risk_score resp))"
    "ra_request_id row = rid" "ra_risk_score row = resp_risk_score resp"
    by (simp_all add: resp_def row_def)
  show ?thesis
    using run m0 b(1) props unfolding s_def
    by (rule_tac x = resp in exI,
        rule_tac x = "d\<lparr>risk_assessments := risk_assessments d @ [row]\<rparr>" in exI,
        rule_tac x = b in exI, rule_tac x = row in exI) simp
qed

theorem C10_missing_verdict_scored_without_ml_witness:
  "assess_summary (assess_risk default_config 2 ''a1'' example_db ''r1'')
     = Inr (0.34, ''ALERT_ONLY'')"
proof -
  have f: "find (\<lambda>r. rr_id r = ''r1'') (raw_requests example_db)
             = Some (request_from ''203.0.113.7'' ''r1'' 1 False)"
    by (simp add: example_db_def empty_db_def request_from_def)
  have n: "\<forall>r \<in> set (ml_predictions example_db). mp_request_id r \<noteq> ''r1''"
    by (simp add: example_db_def empty_db_def)
  obtain resp d' b where r: "assess_risk default_config 2 ''a1'' example_db ''r1'' = Inr (resp, d')"
    "behavioral_score_of
             (case ip_reputation example_db (rr_client_ip (request_from ''203.0.113.7'' ''r1'' 1 False)) of None \<Rightarrow> []
              | Some rep \<Rightarrow>
                  [(''blocked_ratio'', PFloat (real_of_int (blocked_requests rep)
                                   / real_of_int (max (total_requests rep) 1))),
                   (''reputation_score'', PFloat (reputation_score rep))]) = Inr b"
    "resp_risk_score resp
             = owasp_score_of (map owasp_row_dict
                 (filter (\<lambda>r. od_request_id r = ''r1'') (owasp_detections example_db))) * 0.3 + b * 0.2"
    "resp_recommended_action resp = action (decide_action default_config (resp_risk_score resp))"
    using C10_missing_verdict_scored_without_ml [OF f n, of default_config 2 "''a1''"] by blast
  have b: "b = 0.5"
    using r(2) by (simp add: example_db_def empty_db_def request_from_def
        behavioral_score_of_def bind_err_def dict_get_def)
  have "resp_risk_score resp = 0.34"
    using r(3) b by (simp add: example_db_def empty_db_def owasp_row_dict_def opt_str_def
        owasp_score_of_def dict_get_def severity_map_def)
  moreover from this have "resp_recommended_action resp = ''ALERT_ONLY''"
    using r(4) by (simp add: decide_action_def default_config_def)
  ultimately show ?thesis using r(1) by (simp add: assess_summary_def)
qed


lemma case_when_flag_01: "case_when_flag f = 0 \<or> case_when_flag f = 1"
  by (simp add: case_when_flag_def)

lemma update_ip_rep_new:
  assumes "tbl (rr_client_ip new) = None"
  shows "update_ip_rep tbl now new = Inr (tbl (rr_client_ip new \<mapsto>
               \<lparr>first_seen = now, last_seen = rr_timestamp new, total_requests = 1,
                blocked_requests = case_when_flag (rr_is_blocked new),
                suspicious_requests = case_when_flag (rr_is_suspicious new),
                reputation_score = 0.5, trust_level = ''NEUTRAL'', is_whitelisted = False,
                is_blacklisted = False, blacklist_reason = None\<rparr>))"
  using assms by (simp add: update_ip_rep_def Let_def)

lemma update_ip_rep_existing:
  assumes "tbl (rr_client_ip new) = Some r" "update_ip_rep tbl now new = Inr tbl'"
  shows "tbl' = tbl (rr_client_ip new \<mapsto>
               r\<lparr>last_seen := rr_timestamp new, total_requests := total_requests r + 1,
                 blocked_requests := blocked_requests r + case_when_flag (rr_is_blocked new),
                 suspicious_requests :=
                   suspicious_requests r + case_when_flag (rr_is_suspicious new),
                 reputation_score :=
                   reputation_case (blocked_ratio_sql
                     (blocked_requests r + case_when_flag (rr_is_blocked new))
                     (total_requests r + 1))\<rparr>)"
  using assms
  by (auto simp: update_ip_rep_def Let_def bind_err_def int4_add_def split: if_splits)

lemma insert_raw_request_rep:
  "insert_raw_request d now new = Inr d' \<Longrightarrow>
     update_ip_rep (ip_reputation d) now new = Inr (ip_reputation d')"
  by (auto simp: insert_raw_request_def bind_err_def split: sum.splits if_splits)

lemma rep_ok_insert:
  assumes "rep_ok d" "insert_raw_request d now new = Inr d'"
  shows "rep_ok d'"
proof (cases "ip_reputation d (rr_client_ip new)")
  case None
  have "Inr (ip_reputation d') = update_ip_rep (ip_reputation d) now new"
    using insert_raw_request_rep [OF assms(2)] by simp
  also note update_ip_rep_new [where tbl = "ip_reputation d", OF None]
  finally show ?thesis
    using assms(1) case_when_flag_01 [of "rr_is_blocked new"]
    by (auto simp: rep_ok_def)
next
  case (Some r)
  have "0 \<le> blocked_requests r \<and> blocked_requests r \<le> total_requests r"
    using assms(1) Some by (simp add: rep_ok_def)
  then show ?thesis
    using update_ip_rep_existing [where tbl = "ip_reputation d", OF Some insert_raw_request_rep [OF assms(2)]] assms(1)
      case_when_flag_01 [of "rr_is_blocked new"]
    by (auto simp: rep_ok_def)
qed

lemma rep_ok_step: "rep_ok d \<Longrightarrow> rep_ok (rep_step d ev)"
proof (cases ev)
  case (Insert_request now new)
  assume "rep_ok d"
  then show ?thesis using Insert_request
    by (auto split: sum.splits dest: rep_ok_insert)
next
  case (Admin_block now ip reason)
  assume "rep_ok d"
  then show ?thesis using Admin_block
    by (auto simp: rep_ok_def admin_block_ip_rep_def split: option.splits)
next
  case (Admin_unblock ip)
  assume "rep_ok d"
  then show ?thesis using Admin_unblock
    by (auto simp: rep_ok_def admin_unblock_ip_rep_def split: option.splits)
next
  case (Admin_whitelist now ip)
  assume "rep_ok d"
  then show ?thesis using Admin_whitelist
    by (auto simp: rep_ok_def whitelist_ip_def split: option.splits)
qed

lemma rep_ok_fold: "rep_ok d \<Longrightarrow> rep_ok (fold (\<lambda>ev d. rep_step d ev) evs d)"
  by (induction evs arbitrary: d) (auto intro: rep_ok_step)

lemma rep_ok_run: "rep_ok (rep_run evs)"
  unfolding rep_run_def by (rule rep_ok_fold) (simp add: rep_ok_def empty_db_def)

lemma reputation_case_mono:
  "q1 \<le> q2 \<Longrightarrow> reputation_case (Some q2) \<le> reputation_case (Some q1)"
  by (simp add: reputation_case_def)

text \<open>
  C5 (as the code behaves). In every state reached from the empty database by request
  inserts and administrator operations, every stored record has blocked_requests <=
  total_requests, and this still holds after one more insert. An insert for a source that
  already has a record adds 1 to total_requests and 0 or 1 to blocked_requests and
  recomputes reputation_score from the updated ratio: 0.1 if ratio > 0.5, 0.3 if ratio >
  0.2, else 0.7. The first insert for a source creates the record with total_requests 1
  and blocked_requests 0 or 1.
\<close>

theorem C5_counters_and_recomputed_score:
  "(\<forall>ip r. ip_reputation (rep_run evs) ip = Some r \<longrightarrow>
        blocked_requests r \<le> total_requests r)
   \<and> (\<forall>now new d'. insert_raw_request (rep_run evs) now new = Inr d' \<longrightarrow>
        (\<exists>r'. ip_reputation d' (rr_client_ip new) = Some r'
           \<and> blocked_requests r' \<le> total_requests r'
           \<and> (case ip_reputation (rep_run evs) (rr_client_ip new) of
                None \<Rightarrow>
                  total_requests r' = 1
                  \<and> blocked_requests r' = case_when_flag (rr_is_blocked new)
              | Some r \<Rightarrow>
                  total_requests r' = total_requests r + 1
                  \<and> blocked_requests r' = blocked_requests r + case_when_flag (rr_is_blocked new)
                  \<and> 0 < total_requests r'
                  \<and> reputation_score r' =
                      (if real_of_int (blocked_requests r') / real_of_int (total_requests r') > 0.5
                       then 0.1
                       else if real_of_int (blocked_requests r') / real_of_int (total_requests r') > 0.2
                       then 0.3 else 0.7))))"
proof (intro conjI allI impI)
  fix ip r
  assume "ip_reputation (rep_run evs) ip = Some r"
  then show "blocked_requests r \<le> total_requests r"
    using rep_ok_run [of evs] by (simp add: rep_ok_def)
next
  fix now new d'
  assume ins: "insert_raw_request (rep_run evs) now new = Inr d'"
  let ?d = "rep_run evs"
  have ok': "rep_ok d'" using rep_ok_run ins by (rule rep_ok_insert)
  have upd: "update_ip_rep (ip_reputation ?d) now new = Inr (ip_reputation d')"
    using ins by (rule insert_raw_request_rep)
  show "\<exists>r'. ip_reputation d' (rr_client_ip new) = Some r'
           \<and> blocked_requests r' \<le> total_requests r'
           \<and> (case ip_reputation ?d (rr_client_ip new) of
                None \<Rightarrow>
                  total_requests r' = 1
                  \<and> blocked_requests r' = case_when_flag (rr_is_blocked new)
              | Some r \<Rightarrow>
                  total_requests r' = total_requests r + 1
                  \<and> blocked_requests r' = blocked_requests r + case_when_flag (rr_is_blocked new)
                  \<and> 0 < total_requests r'
                  \<and> reputation_score r' =
                      (if real_of_int (blocked_requests r') / real_of_int (total_requests r') > 0.5
                       then 0.1
                       else if real_of_int (blocked_requests r') / real_of_int (total_requests r') > 0.2
                       then 0.3 else 0.7))"
  proof (cases "ip_reputation ?d (rr_client_ip new)")
    case None
    have "Inr (ip_reputation d') = update_ip_rep (ip_reputation ?d) now new"
      using upd by simp
    also note update_ip_rep_new [where tbl = "ip_reputation ?d", OF None]
    finally show ?thesis using None case_when_flag_01 [of "rr_is_blocked new"] by auto
  next
    case (Some r)
    have r: "0 \<le> blocked_requests r \<and> blocked_requests r \<le> total_requests r"
      using rep_ok_run [of evs] Some by (simp add: rep_ok_def)
    then have pos: "total_requests r + 1 \<noteq> 0" by simp
    show ?thesis
      using update_ip_rep_existing [where tbl = "ip_reputation ?d", OF Some upd] Some r pos
        case_when_flag_01 [of "rr_is_blocked new"]
      by (auto simp: reputation_case_def blocked_ratio_sql_def)
  qed
qed

lemmas rep_eval = rep_run_def insert_raw_request_def update_ip_rep_def bind_err_def
      varchar_ok_def
      empty_db_def request_from_def case_when_flag_def Let_def whitelist_ip_def int4_add_def
      reputation_case_def blocked_ratio_sql_def rep_summary_def

theorem C5_counters_and_recomputed_score_witness:
  "insert_raw_request (rep_run [Insert_request 1 (request_from ''203.0.113.7'' ''r1'' 1 True)])
       2 (request_from ''203.0.113.7'' ''r2'' 2 False)
     = Inr (rep_run [Insert_request 1 (request_from ''203.0.113.7'' ''r1'' 1 True),
                     Insert_request 2 (request_from ''203.0.113.7'' ''r2'' 2 False)])
   \<and> rep_summary (ip_reputation
         (rep_run [Insert_request 1 (request_from ''203.0.113.7'' ''r1'' 1 True),
                   Insert_request 2 (request_from ''203.0.113.7'' ''r2'' 2 False)])
         ''203.0.113.7'') = Some (2, 1, False, False, 0.3)"
proof -
  let ?evs = "[Insert_request 1 (request_from ''203.0.113.7'' ''r1'' 1 True)]"
  let ?new = "request_from ''203.0.113.7'' ''r2'' 2 False"
  let ?d' = "rep_run [Insert_request 1 (request_from ''203.0.113.7'' ''r1'' 1 True),
                     Insert_request 2 (request_from ''203.0.113.7'' ''r2'' 2 False)]"
  have h: "insert_raw_request (rep_run ?evs) 2 ?new = Inr ?d'"
    by (simp add: rep_eval)
  have old: "ip_reputation (rep_run ?evs) (rr_client_ip ?new) =
      Some \<lparr>first_seen = 1, last_seen = 1, total_requests = 1, blocked_requests = 1,
            suspicious_requests = 1, reputation_score = 0.5, trust_level = ''NEUTRAL'',
            is_whitelisted = False, is_blacklisted = False, blacklist_reason = None\<rparr>"
    by (simp add: rep_eval)
  have "\<exists>r'. ip_reputation ?d' (rr_client_ip ?new) = Some r'
           \<and> blocked_requests r' \<le> total_requests r'
           \<and> (case ip_reputation (rep_run ?evs) (rr_client_ip ?new) of
                None \<Rightarrow>
                  total_requests r' = 1
                  \<and> blocked_requests r' = case_when_flag (rr_is_blocked ?new)
              | Some r \<Rightarrow>
                  total_requests r' = total_requests r + 1
                  \<and> blocked_requests r' = blocked_requests r + case_when_flag (rr_is_blocked ?new)
                  \<and> 0 < total_requests r'
                  \<and> reputation_score r' =
                      (if real_of_int (blocked_requests r') / real_of_int (total_requests r') > 0.5
                       then 0.1
                       else if real_of_int (blocked_requests r') / real_of_int (total_requests r') > 0.2
                       then 0.3 else 0.7))"
    using C5_counters_and_recomputed_score [of ?evs, THEN conjunct2, rule_format, OF h] .
  then obtain r' where r': "ip_reputation ?d' (rr_client_ip ?new) = Some r'"
    "total_requests r' = 2" "blocked_requests r' = 1" "reputation_score r' = 0.3"
    unfolding old by (auto simp: request_from_def case_when_flag_def)
  have fl: "is_whitelisted r' = False" "is_blacklisted r' = False"
    using r'(1) by (auto simp: rep_eval)
  have "rep_summary (ip_reputation ?d' ''203.0.113.7'') = Some (2, 1, False, False, 0.3)"
    using r' fl by (simp add: rep_summary_def request_from_def)
  with h show ?thesis by simp
qed

text \<open>
  C5 as stated fails on the first observation of a source: one blocked request gives the
  record total 1, blocked 1 (ratio 1 > 0.5) and the stored score is the default 0.5, not
  the 0.1 that the breakpoints give for that ratio.
\<close>

theorem C5_first_observation_counterexample:
  "rep_summary (ip_reputation
      (rep_run [Insert_request 1 (request_from ''203.0.113.7'' ''r1'' 1 True)]) ''203.0.113.7'')
     = Some (1, 1, False, False, 0.5)
   \<and> reputation_case (blocked_ratio_sql 1 1) = 0.1"
  by (simp add: rep_eval)

text \<open>
  C6 (as the code behaves). The score the trigger stores when it updates an existing
  record is a function of the updated blocked/total ratio alone, and that function is
  monotonically non-increasing in the ratio. The whitelisted and blacklisted flags are
  neither read nor changed by the update: the ratio-derived score is stored whatever the
  flags are.
\<close>

theorem C6_score_from_ratio_flags_ignored:
  "(q1 \<le> q2 \<longrightarrow> reputation_case (Some q2) \<le> reputation_case (Some q1))
   \<and> (ip_reputation d (rr_client_ip new) = Some r \<and> insert_raw_request d now new = Inr d' \<longrightarrow>
        (\<exists>r'. ip_reputation d' (rr_client_ip new) = Some r'
           \<and> reputation_score r' =
               reputation_case (blocked_ratio_sql (blocked_requests r') (total_requests r'))
           \<and> is_whitelisted r' = is_whitelisted r
           \<and> is_blacklisted r' = is_blacklisted r))"
proof (intro conjI impI)
  assume "q1 \<le> q2"
  then show "reputation_case (Some q2) \<le> reputation_case (Some q1)"
    by (rule reputation_case_mono)
next
  assume a: "ip_reputation d (rr_client_ip new) = Some r \<and> insert_raw_request d now new = Inr d'"
  then have upd: "update_ip_rep (ip_reputation d) now new = Inr (ip_reputation d')"
    by (simp add: insert_raw_request_rep)
  show "\<exists>r'. ip_reputation d' (rr_client_ip new) = Some r'
           \<and> reputation_score r' =
               reputation_case (blocked_ratio_sql (blocked_requests r') (total_requests r'))
           \<and> is_whitelisted r' = is_whitelisted r
           \<and> is_blacklisted r' = is_blacklisted r"
    using update_ip_rep_existing [where tbl = "ip_reputation d", OF conjunct1 [OF a] upd] by simp
qed


theorem C6_score_from_ratio_flags_ignored_witness:
  "reputation_case (Some 0.6) \<le> reputation_case (Some 0.25)
   \<and> rep_summary (ip_reputation
         (rep_run [Admin_whitelist 0 ''203.0.113.7'',
                   Insert_request 1 (request_from ''203.0.113.7'' ''r1'' 1 False)])
         ''203.0.113.7'') = Some (1, 0, True, False, 0.7)"
proof -
  let ?d = "rep_run [Admin_whitelist 0 ''203.0.113.7'']"
  let ?new = "request_from ''203.0.113.7'' ''r1'' 1 False"
  let ?d' = "rep_run [Admin_whitelist 0 ''203.0.113.7'', Insert_request 1 ?new]"
  let ?r = "\<lparr>first_seen = 0, last_seen = 0, total_requests = 0, blocked_requests = 0,
             suspicious_requests = 0, reputation_score = 1.0, trust_level = ''TRUSTED'',
             is_whitelisted = True, is_blacklisted = False, blacklist_reason = None\<rparr>"
  have old: "ip_reputation ?d (rr_client_ip ?new) = Some ?r"
    by (simp add: rep_eval)
  have h: "insert_raw_request ?d 1 ?new = Inr ?d'"
    by (simp add: rep_eval)
  have mono: "reputation_case (Some 0.6) \<le> reputation_case (Some 0.25)"
    using C6_score_from_ratio_flags_ignored [of "0.25" "0.6", THEN conjunct1] by simp
  have "\<exists>r'. ip_reputation ?d' (rr_client_ip ?new) = Some r'
           \<and> reputation_score r' =
               reputation_case (blocked_ratio_sql (blocked_requests r') (total_requests r'))
           \<and> is_whitelisted r' = is_whitelisted ?r
           \<and> is_blacklisted r' = is_blacklisted ?r"
    using C6_score_from_ratio_flags_ignored [where d = ?d and new = ?new and r = ?r
        and now = 1 and d' = ?d', THEN conjunct2] old h by blast
  then obtain r' where r': "ip_reputation ?d' (rr_client_ip ?new) = Some r'"
    "is_whitelisted r' = True" "is_blacklisted r' = False"
    "reputation_score r' =
       reputation_case (blocked_ratio_sql (blocked_requests r') (total_requests r'))"
    by auto
  have cnt: "total_requests r' = 1" "blocked_requests r' = 0"
    using r'(1) by (auto simp: rep_eval)
  have "reputation_score r' = 0.7"
    using r'(4) cnt by (simp add: reputation_case_def blocked_ratio_sql_def)
  then have "rep_summary (ip_reputation ?d' ''203.0.113.7'') = Some (1, 0, True, False, 0.7)"
    using r' cnt by (simp add: rep_summary_def request_from_def)
  with mono show ?thesis by simp
qed

text \<open>
  C6 as stated fails. A whitelisted source (score 1.0 when whitelisted) that sends one
  blocked request is stored with score 0.1: the flag does not take precedence over the
  ratio-derived score. And the stored score is not a function of the ratio: a source
  with ratio 0 has score 0.5 after its first request and 0.7 after its second.
\<close>

theorem C6_flag_and_ratio_counterexample:
  "rep_summary (ip_reputation
      (rep_run [Admin_whitelist 0 ''203.0.113.7'',
                Insert_request 1 (request_from ''203.0.113.7'' ''r1'' 1 True)])
      ''203.0.113.7'') = Some (1, 1, True, False, 0.1)
   \<and> rep_summary (ip_reputation
      (rep_run [Insert_request 1 (request_from ''198.51.100.9'' ''r2'' 1 False)])
      ''198.51.100.9'') = Some (1, 0, False, False, 0.5)
   \<and> rep_summary (ip_reputation
      (rep_run [Insert_request 1 (request_from ''198.51.100.9'' ''r2'' 1 False),
                Insert_request 2 (request_from ''198.51.100.9'' ''r3'' 2 False)])
      ''198.51.100.9'') = Some (2, 0, False, False, 0.7)"
  by (simp add: rep_eval)


section \<open>Properties of the SOAR engine\<close>


lemma execute_action_block_fails:
  assumes "failing waf" "ENABLE_AUTO_BLOCK env"
  shows "execute_action env waf store ''BLOCK_IP'' ip dur =
           Inr (\<lparr>executed = False, message = block_failure_message waf\<rparr>, store)"
  using assms by (cases waf) (simp_all add: execute_action_def)





lemma find_snoc:
  "find P (xs @ [y]) = (case find P xs of None \<Rightarrow> (if P y then Some y else None) | Some x \<Rightarrow> Some x)"
  by (induction xs) auto

lemma manual_action_block_fails:
  assumes "failing waf" "ENABLE_AUTO_BLOCK env" "mar_action_type req = ''BLOCK_IP''"
    "length (mar_target_ip req) \<le> 45"
  shows "fst (manual_action env waf now new_action_id st req)
           = Inr \<lparr>mr_success = False, mr_action_id = new_action_id, mr_executed = False,
                  mr_message = block_failure_message waf\<rparr>
       \<and> sys_redis (snd (manual_action env waf now new_action_id st req)) = sys_redis st
       \<and> action_status (snd (manual_action env waf now new_action_id st req)) new_action_id
           = (case action_status st new_action_id of None \<Rightarrow> Some ''FAILED'' | Some x \<Rightarrow> Some x)"
  using assms
  by (simp add: manual_action_def execute_action_block_fails insert_soar_action_def
      varchar_ok_def Let_def action_status_def find_snoc split: option.splits)















section \<open>Properties of the detection engine\<close>














end
